theory Spec2Isabelle
  imports Main
begin

section \<open>Python values shared by the model\<close>

text \<open>
  The exceptions of \<^verbatim>\<open>relenv/build/common.py\<close> that the model distinguishes. A raise
  is a value \<open>Inl e\<close> of a sum type, a normal return is \<open>Inr v\<close>.
\<close>

datatype pyerror =
    AttributeError
  | KeyError
  | TypeError
  | ValueError
  | FileNotFoundError
  | RelenvException
  | TransportError

section \<open>Dirs: the directory container and its pickling\<close>

text \<open>
  A Python instance is its attribute dictionary: a map from attribute names to values.
  An attribute that was never assigned is absent from the map, and reading it raises
  \<open>AttributeError\<close>. All attributes of \<^verbatim>\<open>Dirs\<close> are strings or paths; both are
  modelled as \<open>string\<close>.
\<close>

type_synonym pyobj = "string \<rightharpoonup> string"

definition getattr :: "pyobj \<Rightarrow> string \<Rightarrow> pyerror + string" where
  "getattr self k = (case self k of None \<Rightarrow> Inl AttributeError | Some v \<Rightarrow> Inr v)"

text \<open>
  \<^verbatim>\<open>relenv.common.WorkDirs\<close>, as far as \<^verbatim>\<open>Dirs.__init__\<close> reads it.
\<close>

record workdirs =
  wd_root :: string
  wd_build :: string
  wd_download :: string
  wd_logs :: string
  wd_src :: string

text \<open>
  \<^verbatim>\<open>Dirs.__init__(self, dirs, name, arch, version)\<close>. The temporary directory that
  \<^verbatim>\<open>tempfile.mkdtemp\<close> creates is the parameter \<open>tmp\<close>.
\<close>

definition Dirs_init :: "workdirs \<Rightarrow> string \<Rightarrow> string \<Rightarrow> string \<Rightarrow> string \<Rightarrow> pyobj" where
  "Dirs_init dirs name arch version tmp =
     [''name'' \<mapsto> name,
      ''version'' \<mapsto> version,
      ''arch'' \<mapsto> arch,
      ''root'' \<mapsto> wd_root dirs,
      ''build'' \<mapsto> wd_build dirs,
      ''downloads'' \<mapsto> wd_download dirs,
      ''logs'' \<mapsto> wd_logs dirs,
      ''sources'' \<mapsto> wd_src dirs,
      ''tmpbuild'' \<mapsto> tmp]"

text \<open>
  \<^verbatim>\<open>Dirs.__getstate__\<close>: the dictionary literal reads eight attributes, in this order.
\<close>

definition getstate_keys :: "string list" where
  "getstate_keys =
     [''name'', ''arch'', ''root'', ''build'', ''downloads'', ''logs'', ''sources'', ''tmpbuild'']"

definition getstate :: "pyobj \<Rightarrow> pyerror + (string \<rightharpoonup> string)" where
  "getstate self =
     (if list_all (\<lambda>k. self k \<noteq> None) getstate_keys
      then Inr (\<lambda>k. if k \<in> set getstate_keys then self k else None)
      else Inl AttributeError)"

text \<open>
  \<^verbatim>\<open>Dirs.__setstate__\<close>: eight assignments \<^verbatim>\<open>self.k = state["k"]\<close>, in the order of the
  source; a key missing from the state raises \<open>KeyError\<close>.
\<close>

definition setstate_keys :: "string list" where
  "setstate_keys =
     [''name'', ''arch'', ''root'', ''downloads'', ''logs'', ''sources'', ''build'', ''tmpbuild'']"

fun setstate_from :: "string list \<Rightarrow> pyobj \<Rightarrow> (string \<rightharpoonup> string) \<Rightarrow> pyerror + pyobj" where
  "setstate_from [] self state = Inr self"
| "setstate_from (k # ks) self state =
     (case state k of
        None \<Rightarrow> Inl KeyError
      | Some v \<Rightarrow> setstate_from ks (self(k \<mapsto> v)) state)"

definition setstate :: "pyobj \<Rightarrow> (string \<rightharpoonup> string) \<Rightarrow> pyerror + pyobj" where
  "setstate self state = setstate_from setstate_keys self state"

text \<open>
  The properties \<^verbatim>\<open>Dirs._triplet\<close> and \<^verbatim>\<open>Dirs.prefix\<close>. \<open>platform\<close> is
  \<^verbatim>\<open>sys.platform\<close>. \<^verbatim>\<open>self.build / f"{self.version}-{self._triplet}"\<close> reads
  \<^verbatim>\<open>build\<close>, then \<^verbatim>\<open>version\<close>, then \<^verbatim>\<open>arch\<close>.
\<close>

definition triplet_of :: "string \<Rightarrow> pyobj \<Rightarrow> pyerror + string" where
  "triplet_of platform self =
     (case getattr self ''arch'' of
        Inl e \<Rightarrow> Inl e
      | Inr arch \<Rightarrow>
          Inr (if platform = ''darwin'' then arch @ ''-macos''
               else if platform = ''win32'' then arch @ ''-win''
               else arch @ ''-linux-gnu''))"

definition prefix :: "string \<Rightarrow> pyobj \<Rightarrow> pyerror + string" where
  "prefix platform self =
     (case getattr self ''build'' of
        Inl e \<Rightarrow> Inl e
      | Inr build \<Rightarrow>
          (case getattr self ''version'' of
             Inl e \<Rightarrow> Inl e
           | Inr version \<Rightarrow>
               (case triplet_of platform self of
                  Inl e \<Rightarrow> Inl e
                | Inr t \<Rightarrow> Inr (build @ ''/'' @ version @ ''-'' @ t))))"

text \<open>
  Unpickling creates the instance without running \<^verbatim>\<open>__init__\<close> and then calls
  \<^verbatim>\<open>__setstate__\<close> on it: the instance starts with no attribute.
\<close>

definition unpickle :: "(string \<rightharpoonup> string) \<Rightarrow> pyerror + pyobj" where
  "unpickle state = setstate Map.empty state"

section \<open>Download: the artifact descriptor\<close>

text \<open>
  The attributes that \<^verbatim>\<open>Download.__init__\<close> stores. \<^verbatim>\<open>None\<close> is \<open>None\<close>;
  \<^verbatim>\<open>checkfunc\<close> and \<^verbatim>\<open>checkurl\<close> belong to the version check and are passed to it directly.
\<close>

record download =
  dl_name :: string
  url_tpl :: string
  fallback_url_tpl :: "string option"
  signature_tpl :: "string option"
  destination :: string
  dl_version :: string
  md5sum :: "string option"

text \<open>
  \<^verbatim>\<open>tpl.format(version=v)\<close>, for templates whose only replacement field is
  \<^verbatim>\<open>{version}\<close>, as the templates of this repository are.
\<close>

function format_version :: "string \<Rightarrow> string \<Rightarrow> string" where
  "format_version [] v = []"
| "format_version (c # cs) v =
     (if take 9 (c # cs) = ''{version}'' then v @ format_version (drop 8 cs) v
      else c # format_version cs v)"
  by pat_completeness auto
termination
  by (relation "measure (\<lambda>(t, v). length t)") auto

definition url :: "download \<Rightarrow> string" where
  "url self = format_version (url_tpl self) (dl_version self)"

text \<open>
  \<^verbatim>\<open>fallback_url\<close> returns \<^verbatim>\<open>None\<close> when the template is \<^verbatim>\<open>None\<close> or empty (falsy).
\<close>

definition fallback_url :: "download \<Rightarrow> string option" where
  "fallback_url self =
     (case fallback_url_tpl self of
        None \<Rightarrow> None
      | Some t \<Rightarrow> if t = [] then None else Some (format_version t (dl_version self)))"

text \<open>\<^verbatim>\<open>s.rsplit("/", 1)\<close>: the parts before and after the last slash, if there is one.\<close>

definition rsplit_slash :: "string \<Rightarrow> (string \<times> string) option" where
  "rsplit_slash s =
     (if CHR ''/'' \<in> set s
      then Some (rev (tl (dropWhile (\<lambda>c. c \<noteq> CHR ''/'') (rev s))),
                 rev (takeWhile (\<lambda>c. c \<noteq> CHR ''/'') (rev s)))
      else None)"

text \<open>
  \<^verbatim>\<open>filepath\<close>: \<^verbatim>\<open>_, name = self.url.rsplit("/", 1)\<close> raises ValueError when the URL has
  no slash; otherwise the path is the name under the destination.
\<close>

definition filepath :: "download \<Rightarrow> pyerror + string" where
  "filepath self =
     (case rsplit_slash (url self) of
        None \<Rightarrow> Inl ValueError
      | Some (_, name) \<Rightarrow> Inr (destination self @ ''/'' @ name))"

text \<open>
  Modelled from the spec: \<^verbatim>\<open>relenv.common.get_download_location\<close> is not among the
  sources. The spec gives the resolved file path as the basename of the URL under the
  destination.
\<close>

definition get_download_location :: "string \<Rightarrow> string \<Rightarrow> string" where
  "get_download_location u dest =
     dest @ ''/'' @ rev (takeWhile (\<lambda>c. c \<noteq> CHR ''/'') (rev u))"

text \<open>
  The world a download acts on: the files on disk (path to content) and the URLs that
  were requested over the network, in order.
\<close>

record world =
  files :: "string \<rightharpoonup> string"
  requests :: "string list"

text \<open>
  Modelled from the spec: \<^verbatim>\<open>relenv.common.download_url\<close> is not among the sources. It
  requests the URL over the network; on success it stores the content at the download
  location and returns that path, on a transport failure it raises. The network is the
  parameter \<open>net\<close>: the content served for a URL, or \<open>None\<close> for a transport failure.
\<close>

definition download_url ::
  "(string \<Rightarrow> string option) \<Rightarrow> string \<Rightarrow> string \<Rightarrow> world \<Rightarrow> (pyerror + string) \<times> world" where
  "download_url net u dest w =
     (let w' = w\<lparr>requests := requests w @ [u]\<rparr>
      in case net u of
           None \<Rightarrow> (Inl TransportError, w')
         | Some content \<Rightarrow>
             (Inr (get_download_location u dest),
              w'\<lparr>files := (files w')(get_download_location u dest \<mapsto> content)\<rparr>))"

text \<open>
  \<^verbatim>\<open>Download.fetch_file\<close>. The \<^verbatim>\<open>except\<close> branch has no \<^verbatim>\<open>else\<close>: without a
  fallback URL the function falls off its end and returns \<^verbatim>\<open>None\<close>, which is
  \<open>Inr None\<close> here.
\<close>

definition fetch_file ::
  "(string \<Rightarrow> string option) \<Rightarrow> download \<Rightarrow> world
     \<Rightarrow> (pyerror + (string \<times> bool) option) \<times> world" where
  "fetch_file net self w =
     (case download_url net (url self) (destination self) w of
        (Inr p, w1) \<Rightarrow> (Inr (Some (p, True)), w1)
      | (Inl exc, w1) \<Rightarrow>
          (case fallback_url self of
             Some fb \<Rightarrow>
               (if fb = [] then (Inr None, w1)
                else
                  (case download_url net fb (destination self) w1 of
                     (Inr p, w2) \<Rightarrow> (Inr (Some (p, True)), w2)
                   | (Inl exc2, w2) \<Rightarrow> (Inl exc2, w2)))
           | None \<Rightarrow> (Inr None, w1)))"

text \<open>
  \<^verbatim>\<open>verify_checksum(file, checksum)\<close>; \<open>md5\<close> is \<^verbatim>\<open>hashlib.md5(...).hexdigest()\<close>.
\<close>

definition verify_checksum ::
  "(string \<Rightarrow> string) \<Rightarrow> world \<Rightarrow> string \<Rightarrow> string option \<Rightarrow> pyerror + bool" where
  "verify_checksum md5 w file checksum =
     (case checksum of
        None \<Rightarrow> Inr False
      | Some c \<Rightarrow>
          (case files w file of
             None \<Rightarrow> Inl FileNotFoundError
           | Some content \<Rightarrow> if c \<noteq> md5 content then Inl RelenvException else Inr True))"

text \<open>
  \<^verbatim>\<open>Download.validate_md5sum\<close>: True when \<^verbatim>\<open>verify_checksum\<close> returns, False when it
  raises RelenvException; any other exception propagates.
\<close>

definition validate_md5sum ::
  "(string \<Rightarrow> string) \<Rightarrow> world \<Rightarrow> string \<Rightarrow> string option \<Rightarrow> pyerror + bool" where
  "validate_md5sum md5 w archive m =
     (case verify_checksum md5 w archive m of
        Inr _ \<Rightarrow> Inr True
      | Inl RelenvException \<Rightarrow> Inr False
      | Inl e \<Rightarrow> Inl e)"

text \<open>
  \<^verbatim>\<open>Download.__call__(self, force_download)\<close>. \<^verbatim>\<open>_, downloaded = self.fetch_file()\<close>
  raises TypeError when \<^verbatim>\<open>fetch_file\<close> returned \<^verbatim>\<open>None\<close>. After a download with a
  signature template, \<^verbatim>\<open>self.fetch_signature()\<close> is called without the \<^verbatim>\<open>version\<close>
  argument its declaration requires, so the call raises TypeError before any signature
  is fetched or validated.
\<close>

definition call_fetch ::
  "(string \<Rightarrow> string option) \<Rightarrow> download \<Rightarrow> world \<Rightarrow> (pyerror + bool) \<times> world" where
  "call_fetch net self w =
     (case fetch_file net self w of
        (Inl e, w1) \<Rightarrow> (Inl e, w1)
      | (Inr None, w1) \<Rightarrow> (Inl TypeError, w1)
      | (Inr (Some (_, downloaded)), w1) \<Rightarrow> (Inr downloaded, w1))"

definition validate_downloaded ::
  "(string \<Rightarrow> string) \<Rightarrow> download \<Rightarrow> string \<Rightarrow> world \<Rightarrow> pyerror + bool" where
  "validate_downloaded md5 self path w =
     (if signature_tpl self \<noteq> None then Inl TypeError
      else if md5sum self \<noteq> None then
        (case validate_md5sum md5 w path (md5sum self) of
           Inl e \<Rightarrow> Inl e
         | Inr valid_md5 \<Rightarrow> Inr (True \<and> valid_md5))
      else Inr True)"

definition md5sum_truthy :: "download \<Rightarrow> bool" where
  "md5sum_truthy self = (case md5sum self of None \<Rightarrow> False | Some m \<Rightarrow> m \<noteq> [])"

definition Download_call ::
  "(string \<Rightarrow> string option) \<Rightarrow> (string \<Rightarrow> string) \<Rightarrow> download \<Rightarrow> bool \<Rightarrow> world
     \<Rightarrow> (pyerror + bool) \<times> world" where
  "Download_call net md5 self force_download w =
     (case filepath self of
        Inl e \<Rightarrow> (Inl e, w)
      | Inr path \<Rightarrow>
          (let fetched =
             (if force_download then call_fetch net self w
              else
                (let dest = get_download_location (url self) (destination self) in
                 case (if md5sum_truthy self \<and> files w dest \<noteq> None
                       then validate_md5sum md5 w dest (md5sum self) else Inr False) of
                   Inl e \<Rightarrow> (Inl e, w)
                 | Inr file_is_valid \<Rightarrow>
                     if file_is_valid then (Inr False, w) else call_fetch net self w))
           in case fetched of
                (Inl e, w1) \<Rightarrow> (Inl e, w1)
              | (Inr downloaded, w1) \<Rightarrow>
                  if downloaded then (validate_downloaded md5 self path w1, w1)
                  else (Inr True, w1)))"

text \<open>
  A \<^verbatim>\<open>multiprocessing.Process\<close> ignores the value its target returns: the exit code is 0
  when the target returns, whatever it returns, and 1 when it raises.
\<close>

definition process_exitcode :: "pyerror + 'a \<Rightarrow> int" where
  "process_exitcode r = (case r of Inl _ \<Rightarrow> 1 | Inr _ \<Rightarrow> 0)"

definition download_worker_exitcode ::
  "(string \<Rightarrow> string option) \<Rightarrow> (string \<Rightarrow> string) \<Rightarrow> download \<Rightarrow> bool \<Rightarrow> world \<Rightarrow> int" where
  "download_worker_exitcode net md5 self force_download w =
     process_exitcode (fst (Download_call net md5 self force_download w))"

section \<open>The download phase\<close>

text \<open>
  How a call ends: it returns, an exception leaves it, or \<^verbatim>\<open>sys.exit(n)\<close> ends the
  process.
\<close>

datatype 'a res = Return 'a | Raise pyerror | SysExit int

text \<open>
  A recipe of \<^verbatim>\<open>Builder.recipies\<close>: the dependency list and the optional download. The
  build function is part of the environment of the build phase.
\<close>

record recipe =
  wait_on :: "string list"
  download :: "download option"

text \<open>
  A Python dict keeps its keys in insertion order; \<^verbatim>\<open>d[k] = v\<close> keeps the position of a
  key that is already present. The dicts \<^verbatim>\<open>processes\<close>, \<^verbatim>\<open>events\<close> and \<^verbatim>\<open>waits\<close> are keyed by
  step name; their key lists are modelled by \<open>string list\<close>.
\<close>

definition dict_set :: "string list \<Rightarrow> string \<Rightarrow> string list" where
  "dict_set keys k = (if k \<in> set keys then keys else keys @ [k])"

text \<open>
  The first loop of \<^verbatim>\<open>Builder.download_files\<close>: one process per step that has a
  download; \<^verbatim>\<open>self.recipies[name]\<close> raises KeyError for an unknown step.
\<close>

fun dl_spawn :: "(string \<rightharpoonup> recipe) \<Rightarrow> string list \<Rightarrow> string list \<Rightarrow> pyerror + string list" where
  "dl_spawn rs [] procs = Inr procs"
| "dl_spawn rs (name # steps) procs =
     (case rs name of
        None \<Rightarrow> Inl KeyError
      | Some r \<Rightarrow>
          (case download r of
             None \<Rightarrow> dl_spawn rs steps procs
           | Some d \<Rightarrow> dl_spawn rs steps (dict_set procs name)))"

text \<open>
  The workers are other processes. What the orchestrator sees of one is its
  \<^verbatim>\<open>exitcode\<close>: \<^verbatim>\<open>None\<close> until the worker has ended. Time is counted in calls of
  \<^verbatim>\<open>proc.join(0.3)\<close>; \<open>finish name\<close> is the count from which the worker \<open>name\<close> is seen
  ended (\<open>None\<close>: it never ends) and \<open>code name\<close> its exit code.
\<close>

definition exitcode_at :: "(string \<Rightarrow> nat option) \<Rightarrow> (string \<Rightarrow> int) \<Rightarrow> nat \<Rightarrow> string \<Rightarrow> int option" where
  "exitcode_at finish code t name =
     (case finish name of
        None \<Rightarrow> None
      | Some f \<Rightarrow> if f \<le> t then Some (code name) else None)"

record dl_state =
  dl_clock :: nat
  dl_processes :: "string list"
  dl_fails :: "string list"

text \<open>
  One pass of \<^verbatim>\<open>for proc in list(processes.values())\<close> over the snapshot.
\<close>

fun dl_pass ::
  "(string \<Rightarrow> nat option) \<Rightarrow> (string \<Rightarrow> int) \<Rightarrow> string list \<Rightarrow> dl_state \<Rightarrow> dl_state" where
  "dl_pass finish code [] st = st"
| "dl_pass finish code (p # ps) st =
     (let st1 = st\<lparr>dl_clock := dl_clock st + 1\<rparr>
      in case exitcode_at finish code (dl_clock st1) p of
           None \<Rightarrow> dl_pass finish code ps st1
         | Some c \<Rightarrow>
             dl_pass finish code ps
               (st1\<lparr>dl_processes := removeAll p (dl_processes st1),
                    dl_fails := (if c \<noteq> 0 then dl_fails st1 @ [p] else dl_fails st1)\<rparr>))"

text \<open>
  \<^verbatim>\<open>while processes:\<close> may run forever; the loop takes fuel (a bound on the number of
  passes) and \<open>None\<close> means that it was still polling when the fuel ran out.
\<close>

fun dl_loop ::
  "nat \<Rightarrow> (string \<Rightarrow> nat option) \<Rightarrow> (string \<Rightarrow> int) \<Rightarrow> dl_state \<Rightarrow> dl_state option" where
  "dl_loop 0 finish code st = (if dl_processes st = [] then Some st else None)"
| "dl_loop (Suc k) finish code st =
     (if dl_processes st = [] then Some st
      else dl_loop k finish code (dl_pass finish code (dl_processes st) st))"

record dl_result =
  dl_outcome :: "unit res"
  dl_stderr :: "string list"
  dl_spawned :: "string list"
  dl_end_clock :: nat

text \<open>
  \<^verbatim>\<open>Builder.download_files(steps)\<close>; the caller has replaced \<^verbatim>\<open>steps=None\<close> by the
  recipe names.
\<close>

definition download_files ::
  "nat \<Rightarrow> (string \<Rightarrow> nat option) \<Rightarrow> (string \<Rightarrow> int) \<Rightarrow> (string \<rightharpoonup> recipe) \<Rightarrow> string list
     \<Rightarrow> dl_result option" where
  "download_files fuel finish code rs steps =
     (case dl_spawn rs steps [] of
        Inl e \<Rightarrow>
          Some \<lparr>dl_outcome = Raise e, dl_stderr = [], dl_spawned = [], dl_end_clock = 0\<rparr>
      | Inr procs \<Rightarrow>
          (case dl_loop fuel finish code \<lparr>dl_clock = 0, dl_processes = procs, dl_fails = []\<rparr> of
             None \<Rightarrow> None
           | Some st \<Rightarrow>
               Some (if dl_fails st \<noteq> []
                     then \<lparr>dl_outcome = SysExit 1,
                           dl_stderr = ''The following failures were reported'' # dl_fails st,
                           dl_spawned = procs, dl_end_clock = dl_clock st\<rparr>
                     else \<lparr>dl_outcome = Return (), dl_stderr = [],
                           dl_spawned = procs, dl_end_clock = dl_clock st\<rparr>)))"

section \<open>The build phase: the scheduler\<close>

text \<open>
  A worker process of the build phase runs \<^verbatim>\<open>Builder.run\<close>: it waits in
  \<^verbatim>\<open>while event.is_set() is False\<close> until its gate is set, then does the work of the step
  and ends. \<open>Running t\<close> records the time at which the worker passed its gate.
\<close>

datatype wstatus = Waiting | Running nat | Exited int

text \<open>
  The local variables of \<^verbatim>\<open>Builder.build\<close> and the state of the worker processes.
  \<open>names\<close> is the key list of the dicts \<^verbatim>\<open>events\<close> and \<^verbatim>\<open>waits\<close>, \<open>processes\<close> the key
  list of \<^verbatim>\<open>processes\<close>; \<open>started\<close> holds the workers that have passed their gate, which
  is the only way to the invocation of the build action.
\<close>

record bstate =
  clock :: nat
  processes :: "string list"
  names :: "string list"
  waits :: "string \<Rightarrow> string list"
  events :: "string \<Rightarrow> bool"
  fails :: "string list"
  status :: "string \<Rightarrow> wstatus"
  started :: "string set"

text \<open>
  \<^verbatim>\<open>Process.terminate()\<close> sends SIGTERM; the exit code of a process ended by a signal is
  the negated signal number.
\<close>

definition sigterm_exitcode :: int where
  "sigterm_exitcode = - 15"

text \<open>
  \<^verbatim>\<open>proc.exitcode\<close>. The work of a step that passed its gate at time \<open>s\<close> takes
  \<open>dur name\<close> polls (\<open>None\<close>: it hangs) and ends with the exit code \<open>rc name\<close>.
\<close>

definition proc_exitcode ::
  "(string \<Rightarrow> nat option) \<Rightarrow> (string \<Rightarrow> int) \<Rightarrow> bstate \<Rightarrow> string \<Rightarrow> int option" where
  "proc_exitcode dur rc st name =
     (case status st name of
        Exited c \<Rightarrow> Some c
      | Waiting \<Rightarrow> None
      | Running s \<Rightarrow>
          (case dur name of
             None \<Rightarrow> None
           | Some d \<Rightarrow> if s + d \<le> clock st then Some (rc name) else None))"

text \<open>\<^verbatim>\<open>processes[name].terminate()\<close>: no effect on a process that has ended.\<close>

definition terminate ::
  "(string \<Rightarrow> nat option) \<Rightarrow> (string \<Rightarrow> int) \<Rightarrow> string \<Rightarrow> bstate \<Rightarrow> bstate" where
  "terminate dur rc name st =
     (case proc_exitcode dur rc st name of
        Some c \<Rightarrow> st
      | None \<Rightarrow> st\<lparr>status := (status st)(name := Exited sigterm_exitcode)\<rparr>)"

text \<open>
  \<^verbatim>\<open>events[name].set()\<close>: a worker that waits at its gate passes it.
\<close>

definition event_set :: "string \<Rightarrow> bstate \<Rightarrow> bstate" where
  "event_set name st =
     (if status st name = Waiting
      then st\<lparr>events := (events st)(name := True),
               status := (status st)(name := Running (clock st)),
               started := insert name (started st)\<rparr>
      else st\<lparr>events := (events st)(name := True)\<rparr>)"

text \<open>
  \<^verbatim>\<open>for _ in wait_on[:]: if _ not in steps: wait_on.remove(_)\<close>: the loop runs over a
  copy and removes, for each entry that is not a requested step, its first occurrence.
\<close>

definition prune_wait_on :: "string list \<Rightarrow> string list \<Rightarrow> string list" where
  "prune_wait_on steps ws =
     fold (\<lambda>d acc. if d \<notin> set steps then remove1 d acc else acc) ws ws"

text \<open>
  The first loop of \<^verbatim>\<open>Builder.build\<close>, one iteration per entry of \<^verbatim>\<open>steps\<close>: a new
  event, the pruned dependency list, the event set when that list is empty, and the
  worker started. Step names are taken to be distinct, as the keys of the recipe dict are:
  the state of a worker is kept under its name.
\<close>

definition spawn_step :: "(string \<rightharpoonup> recipe) \<Rightarrow> string list \<Rightarrow> string \<Rightarrow> bstate \<Rightarrow> pyerror + bstate" where
  "spawn_step rs steps name st =
     (case rs name of
        None \<Rightarrow> Inl KeyError
      | Some r \<Rightarrow>
          (let ws = prune_wait_on steps (wait_on r);
               gate = (ws = [])
           in Inr (st\<lparr>names := dict_set (names st) name,
                       events := (events st)(name := gate),
                       waits := (waits st)(name := ws),
                       status := (status st)(name := if gate then Running (clock st) else Waiting),
                       started := (if gate then insert name (started st) else started st),
                       processes := dict_set (processes st) name\<rparr>)))"

fun build_spawn :: "(string \<rightharpoonup> recipe) \<Rightarrow> string list \<Rightarrow> string list \<Rightarrow> bstate \<Rightarrow> pyerror + bstate" where
  "build_spawn rs steps [] st = Inr st"
| "build_spawn rs steps (name # rest) st =
     (case spawn_step rs steps name st of
        Inl e \<Rightarrow> Inl e
      | Inr st1 \<Rightarrow> build_spawn rs steps rest st1)"

definition bstate0 :: bstate where
  "bstate0 = \<lparr>clock = 0, processes = [], names = [], waits = (\<lambda>_. []), events = (\<lambda>_. False),
              fails = [], status = (\<lambda>_. Waiting), started = {}\<rparr>"

text \<open>
  The body of \<^verbatim>\<open>for name in waits:\<close> for the ended process \<open>p\<close>: a step that waits on
  \<open>p\<close> is terminated when \<open>p\<close> failed and the step is still in \<^verbatim>\<open>processes\<close>, and \<open>p\<close>
  is removed from its list; then the event of a step whose list is empty is set if it is not
  set yet.
\<close>

definition notify ::
  "(string \<Rightarrow> nat option) \<Rightarrow> (string \<Rightarrow> int) \<Rightarrow> string \<Rightarrow> bool \<Rightarrow> string \<Rightarrow> bstate \<Rightarrow> bstate" where
  "notify dur rc p is_failure name st =
     (let st1 =
        (if p \<in> set (waits st name)
         then (let st' = (if is_failure \<and> name \<in> set (processes st)
                          then terminate dur rc name st else st)
               in st'\<lparr>waits := (waits st')(name := remove1 p (waits st' name))\<rparr>)
         else st)
      in if waits st1 name = [] \<and> \<not> events st1 name then event_set name st1 else st1)"

text \<open>
  What the loop does for a process \<open>p\<close> whose exit code \<open>c\<close> it has seen: the process
  leaves \<^verbatim>\<open>processes\<close>, a non-zero code puts its name into \<^verbatim>\<open>fails\<close>, and every key of
  \<^verbatim>\<open>waits\<close> is visited.
\<close>

definition handle_exit ::
  "(string \<Rightarrow> nat option) \<Rightarrow> (string \<Rightarrow> int) \<Rightarrow> string \<Rightarrow> int \<Rightarrow> bstate \<Rightarrow> bstate" where
  "handle_exit dur rc p c st =
     (let st1 = st\<lparr>processes := removeAll p (processes st),
                   fails := (if c \<noteq> 0 then fails st @ [p] else fails st)\<rparr>
      in fold (notify dur rc p (c \<noteq> 0)) (names st1) st1)"

fun build_pass ::
  "(string \<Rightarrow> nat option) \<Rightarrow> (string \<Rightarrow> int) \<Rightarrow> string list \<Rightarrow> bstate \<Rightarrow> bstate" where
  "build_pass dur rc [] st = st"
| "build_pass dur rc (p # ps) st =
     (let st1 = st\<lparr>clock := clock st + 1\<rparr>
      in case proc_exitcode dur rc st1 p of
           None \<Rightarrow> build_pass dur rc ps st1
         | Some c \<Rightarrow> build_pass dur rc ps (handle_exit dur rc p c st1))"

fun build_loop ::
  "nat \<Rightarrow> (string \<Rightarrow> nat option) \<Rightarrow> (string \<Rightarrow> int) \<Rightarrow> bstate \<Rightarrow> bstate option" where
  "build_loop 0 dur rc st = (if processes st = [] then Some st else None)"
| "build_loop (Suc k) dur rc st =
     (if processes st = [] then Some st
      else build_loop k dur rc (build_pass dur rc (processes st) st))"

text \<open>
  \<^verbatim>\<open>Builder.build(steps)\<close>: the outcome and the final state. Printing the log tails and
  removing the prefix directory are left out. \<open>None\<close>: still polling when the fuel ran
  out.
\<close>

definition build ::
  "nat \<Rightarrow> (string \<Rightarrow> nat option) \<Rightarrow> (string \<Rightarrow> int) \<Rightarrow> (string \<rightharpoonup> recipe) \<Rightarrow> string list
     \<Rightarrow> (unit res \<times> bstate) option" where
  "build fuel dur rc rs steps =
     (case build_spawn rs steps steps bstate0 of
        Inl e \<Rightarrow> Some (Raise e, bstate0)
      | Inr st0 \<Rightarrow>
          (case build_loop fuel dur rc st0 of
             None \<Rightarrow> None
           | Some st \<Rightarrow> Some (if fails st \<noteq> [] then SysExit 1 else Return (), st)))"

text \<open>
  \<^verbatim>\<open>Builder.__call__\<close> from the prerequisite check on: \<^verbatim>\<open>check_prereqs\<close> (the toolchain
  exists), then \<^verbatim>\<open>download_files\<close>, then \<^verbatim>\<open>build\<close>, which is reached only when
  \<^verbatim>\<open>download_files\<close> returns. The result holds the outcome and the steps whose worker
  passed its gate.
\<close>

definition Builder_call ::
  "nat \<Rightarrow> bool \<Rightarrow> (string \<Rightarrow> nat option) \<Rightarrow> (string \<Rightarrow> int) \<Rightarrow> (string \<Rightarrow> nat option) \<Rightarrow> (string \<Rightarrow> int)
     \<Rightarrow> (string \<rightharpoonup> recipe) \<Rightarrow> string list \<Rightarrow> (unit res \<times> string set) option" where
  "Builder_call fuel toolchain_ok finish code dur rc rs steps =
     (if \<not> toolchain_ok then Some (SysExit 1, {})
      else
        (case download_files fuel finish code rs steps of
           None \<Rightarrow> None
         | Some r \<Rightarrow>
             (case dl_outcome r of
                Return _ \<Rightarrow>
                  (case build fuel dur rc rs steps of
                     None \<Rightarrow> None
                   | Some (out, st) \<Rightarrow> Some (out, started st))
              | Raise e \<Rightarrow> Some (Raise e, {})
              | SysExit n \<Rightarrow> Some (SysExit n, {}))))"

text \<open>
  The exit code of the download worker of a step, when the worker runs
  \<^verbatim>\<open>Download.__call__\<close> on the world \<open>w\<close>.
\<close>

definition download_codes ::
  "(string \<Rightarrow> string option) \<Rightarrow> (string \<Rightarrow> string) \<Rightarrow> (string \<rightharpoonup> recipe) \<Rightarrow> bool \<Rightarrow> world
     \<Rightarrow> string \<Rightarrow> int" where
  "download_codes net md5 rs force_download w name =
     (case rs name of
        None \<Rightarrow> 0
      | Some r \<Rightarrow>
          (case download r of
             None \<Rightarrow> 0
           | Some d \<Rightarrow> download_worker_exitcode net md5 d force_download w))"

section \<open>Theorems\<close>

subsection \<open>Dirs pickling\<close>

lemma getstate_Inr:
  assumes "getstate self = Inr st"
  shows "st = (\<lambda>k. if k \<in> set getstate_keys then self k else None)"
    and "list_all (\<lambda>k. self k \<noteq> None) getstate_keys"
  using assms by (auto simp: getstate_def split: if_splits)

text \<open>
  C10. For every Dirs object whose state can be taken, \<^verbatim>\<open>__setstate__\<close> applied to the
  result of \<^verbatim>\<open>__getstate__\<close> succeeds and restores name, arch, root, build, downloads,
  logs, sources and tmpbuild to equal values; it never sets version, so the rebuilt
  object has no version attribute and reading its \<^verbatim>\<open>prefix\<close> property raises
  AttributeError.
\<close>

theorem Dirs_setstate_getstate:
  assumes "getstate self = Inr st"
  shows "\<exists>self'. unpickle st = Inr self'
           \<and> self' ''name'' = self ''name'' \<and> self' ''arch'' = self ''arch''
           \<and> self' ''root'' = self ''root'' \<and> self' ''build'' = self ''build''
           \<and> self' ''downloads'' = self ''downloads'' \<and> self' ''logs'' = self ''logs''
           \<and> self' ''sources'' = self ''sources'' \<and> self' ''tmpbuild'' = self ''tmpbuild''
           \<and> self' ''version'' = None
           \<and> prefix platform self' = Inl AttributeError"
proof -
  have st: "st = (\<lambda>k. if k \<in> set getstate_keys then self k else None)"
    and ex: "list_all (\<lambda>k. self k \<noteq> None) getstate_keys"
    using getstate_Inr [OF assms] by blast+
  from ex obtain a b c d e f g h where vals:
    "self ''name'' = Some a" "self ''arch'' = Some b" "self ''root'' = Some c"
    "self ''build'' = Some d" "self ''downloads'' = Some e" "self ''logs'' = Some f"
    "self ''sources'' = Some g" "self ''tmpbuild'' = Some h"
    by (auto simp: getstate_keys_def)
  have "unpickle st =
      Inr [''name'' \<mapsto> a, ''arch'' \<mapsto> b, ''root'' \<mapsto> c, ''downloads'' \<mapsto> e,
           ''logs'' \<mapsto> f, ''sources'' \<mapsto> g, ''build'' \<mapsto> d, ''tmpbuild'' \<mapsto> h]"
    by (simp add: unpickle_def setstate_def setstate_keys_def st getstate_keys_def vals)
  then show ?thesis
    by (simp add: vals prefix_def getattr_def)
qed

theorem Dirs_setstate_getstate_witness:
  "getstate (Dirs_init \<lparr>wd_root = ''/r'', wd_build = ''/r/build'', wd_download = ''/r/download'',
        wd_logs = ''/r/logs'', wd_src = ''/r/src''\<rparr> ''openssl'' ''x86_64'' ''3.10.9'' ''/tmp/t'')
     \<noteq> Inl AttributeError
   \<and> prefix ''linux'' (Dirs_init \<lparr>wd_root = ''/r'', wd_build = ''/r/build'',
        wd_download = ''/r/download'', wd_logs = ''/r/logs'', wd_src = ''/r/src''\<rparr>
        ''openssl'' ''x86_64'' ''3.10.9'' ''/tmp/t'') = Inr ''/r/build/3.10.9-x86_64-linux-gnu''
   \<and> (\<exists>st self'. getstate (Dirs_init \<lparr>wd_root = ''/r'', wd_build = ''/r/build'',
        wd_download = ''/r/download'', wd_logs = ''/r/logs'', wd_src = ''/r/src''\<rparr>
        ''openssl'' ''x86_64'' ''3.10.9'' ''/tmp/t'') = Inr st
      \<and> unpickle st = Inr self' \<and> self' ''name'' = Some ''openssl''
      \<and> self' ''version'' = None \<and> prefix ''linux'' self' = Inl AttributeError)"
proof -
  let ?d = "Dirs_init \<lparr>wd_root = ''/r'', wd_build = ''/r/build'', wd_download = ''/r/download'',
        wd_logs = ''/r/logs'', wd_src = ''/r/src''\<rparr> ''openssl'' ''x86_64'' ''3.10.9'' ''/tmp/t''"
  obtain st where st: "getstate ?d = Inr st"
    by (simp add: getstate_def Dirs_init_def getstate_keys_def)
  have n: "?d ''name'' = Some ''openssl''"
    by (simp add: Dirs_init_def)
  have p: "prefix ''linux'' ?d = Inr ''/r/build/3.10.9-x86_64-linux-gnu''"
    by (simp add: prefix_def triplet_of_def getattr_def Dirs_init_def)
  from Dirs_setstate_getstate [OF st, of "''linux''"] n p st show ?thesis
    by auto
qed

end
